theory Spec2Isabelle
  imports Complex_Main "HOL-Library.Sublist"
begin

section \<open>Python string primitives\<close>

text \<open>
  A Python \<open>str\<close> is modelled as the list of its code points, for the code points below
  256 that a \<open>char\<close> holds, so \<open>length\<close> is Python's \<open>len\<close>. \<open>isspace\<close> lists the
  code points below 256 that \<open>str.strip()\<close> removes, \<open>lower_char\<close> is \<open>str.lower()\<close> on
  one such code point (A-Z and the Latin-1 capitals, without the multiplication sign).
\<close>

definition isspace :: "char \<Rightarrow> bool" where
  "isspace c \<longleftrightarrow> (of_char c :: nat) \<in> {9, 10, 11, 12, 13, 28, 29, 30, 31, 32, 133, 160}"

definition lower_char :: "char \<Rightarrow> char" where
  "lower_char c =
     (let n = (of_char c :: nat)
      in if (65 \<le> n \<and> n \<le> 90) \<or> (192 \<le> n \<and> n \<le> 222 \<and> n \<noteq> 215)
         then char_of (n + 32) else c)"

definition lower :: "string \<Rightarrow> string" where
  "lower s = map lower_char s"

definition strip :: "string \<Rightarrow> string" where
  "strip s = rev (dropWhile isspace (rev (dropWhile isspace s)))"

text \<open>\<open>s.split(sep)\<close> for a separator of one character; \<open>acc\<close> holds the current piece reversed.\<close>

fun split_acc :: "char \<Rightarrow> string \<Rightarrow> string \<Rightarrow> string list" where
  "split_acc sep acc [] = [rev acc]"
| "split_acc sep acc (c # cs) =
     (if c = sep then rev acc # split_acc sep [] cs else split_acc sep (c # acc) cs)"

definition split_lines :: "string \<Rightarrow> string list" where
  "split_lines s = split_acc CHR 0x0A [] s"

text \<open>
  \<open>line.split(':', 1)\<close> under the guard \<open>':' in line\<close>: the text before the first colon and
  the text after it; \<open>None\<close> when the line has no colon.
\<close>

definition split_colon :: "string \<Rightarrow> (string \<times> string) option" where
  "split_colon line =
     (case dropWhile (\<lambda>c. c \<noteq> CHR '':'') line of
        [] \<Rightarrow> None
      | _ # v \<Rightarrow> Some (takeWhile (\<lambda>c. c \<noteq> CHR '':'') line, v))"

text \<open>
  \<open>list.sort(key=key, reverse=True)\<close>: a stable sort, descending in the key; entries of
  equal key keep their order. \<open>xs[:n]\<close>: a negative \<open>n\<close> counts from the end.
\<close>

definition sort_reverse :: "('a \<Rightarrow> int) \<Rightarrow> 'a list \<Rightarrow> 'a list" where
  "sort_reverse key xs = sort_key (\<lambda>x. - key x) xs"

definition slice_to :: "'a list \<Rightarrow> int \<Rightarrow> 'a list" where
  "slice_to xs n = (if 0 \<le> n then take (nat n) xs else take (nat (int (length xs) + n)) xs)"

section \<open>The similarity score\<close>

text \<open>
  Modelled from the spec: \<open>fuzz.ratio\<close> belongs to the fuzzywuzzy library, which is not
  part of the repository. The spec calls it a normalized edit-distance similarity score
  on 0-100. The functions of the catalog take the score as the parameter \<open>ratio\<close>, and the
  theorems hold for every score function; \<open>fuzz_ratio\<close> is the instance used at concrete
  inputs: 100 for equal strings, 0 when one is empty, otherwise twice the length of a
  longest common subsequence over the sum of the lengths, in percent, rounded half to even.
\<close>

fun lcs :: "string \<Rightarrow> string \<Rightarrow> nat" where
  "lcs [] ys = 0"
| "lcs (x # xs) [] = 0"
| "lcs (x # xs) (y # ys) =
     (if x = y then Suc (lcs xs ys) else max (lcs xs (y # ys)) (lcs (x # xs) ys))"

definition intr_div :: "nat \<Rightarrow> nat \<Rightarrow> int" where
  "intr_div a b =
     (let q = a div b; r = a mod b
      in if b < 2 * r \<or> (2 * r = b \<and> odd q) then int q + 1 else int q)"

definition fuzz_ratio :: "string \<Rightarrow> string \<Rightarrow> int" where
  "fuzz_ratio s1 s2 =
     (if s1 = s2 then 100
      else if s1 = [] \<or> s2 = [] then 0
      else intr_div (100 * (2 * lcs s1 s2)) (length s1 + length s2))"

section \<open>medicine\_database.py\<close>

text \<open>The exact pass of \<open>search_medicine\<close>: the first entry equal to the query in lower case.\<close>

fun exact_match :: "string list \<Rightarrow> string \<Rightarrow> string option" where
  "exact_match [] query_lower = None"
| "exact_match (medicine # rest) query_lower =
     (if lower medicine = query_lower then Some medicine else exact_match rest query_lower)"

text \<open>The fuzzy pass: the loop over the catalog, carrying \<open>(best_match, best_score)\<close>.\<close>

fun fuzzy_scan ::
  "(string \<Rightarrow> string \<Rightarrow> int) \<Rightarrow> string \<Rightarrow> string list \<Rightarrow> string option \<times> int
     \<Rightarrow> string option \<times> int" where
  "fuzzy_scan ratio query_lower [] (best_match, best_score) = (best_match, best_score)"
| "fuzzy_scan ratio query_lower (medicine # rest) (best_match, best_score) =
     (let score = ratio query_lower (lower medicine)
      in if score > best_score
         then fuzzy_scan ratio query_lower rest (Some medicine, score)
         else fuzzy_scan ratio query_lower rest (best_match, best_score))"

definition search_medicine ::
  "(string \<Rightarrow> string \<Rightarrow> int) \<Rightarrow> string list \<Rightarrow> string \<Rightarrow> int \<Rightarrow> string option" where
  "search_medicine ratio medicines query threshold =
     (if medicines = [] then None
      else
        let query_lower = strip (lower query)
        in case exact_match medicines query_lower of
             Some medicine \<Rightarrow> Some medicine
           | None \<Rightarrow>
               (case fuzzy_scan ratio query_lower medicines (None, 0) of
                  (best_match, best_score) \<Rightarrow>
                    if best_score \<ge> threshold then best_match else None))"

definition get_best_matches ::
  "(string \<Rightarrow> string \<Rightarrow> int) \<Rightarrow> string list \<Rightarrow> string \<Rightarrow> int \<Rightarrow> (string \<times> int) list" where
  "get_best_matches ratio medicines query top_n =
     (if medicines = [] then []
      else
        let query_lower = strip (lower query);
            matches = map (\<lambda>medicine. (medicine, ratio query_lower (lower medicine))) medicines
        in slice_to (sort_reverse snd matches) top_n)"

definition add_medicine :: "string list \<Rightarrow> string \<Rightarrow> string list" where
  "add_medicine medicines medicine_name =
     (let name = strip medicine_name
      in if name \<noteq> [] \<and> name \<notin> set medicines then medicines @ [name] else medicines)"

section \<open>llm\_analyzer.py\<close>

text \<open>
  The result of \<open>analyze_medicine\<close> is a Python dict from field names to strings: a map.
\<close>

type_synonym medicine_info = "string \<rightharpoonup> string"

definition create_medicine_analysis_prompt :: "string \<Rightarrow> string" where
  "create_medicine_analysis_prompt medicine_name =
     ''You are a pharmaceutical expert assistant. Analyze the following medicine name and provide structured information.\<newline>\<newline>Medicine Name: ''
     @ medicine_name @
     ''\<newline>\<newline>Please provide the following information in a structured format:\<newline>1. Medicine Type: (e.g., Antibiotic, Analgesic, Antacid, Antihistamine, etc.)\<newline>2. Primary Use: (Brief description of what it's used for)\<newline>3. Drug Class: (Pharmacological classification)\<newline>4. Common Form: (Tablet, Capsule, Cream, Syrup, etc.)\<newline>\<newline>Format your response as follows:\<newline>Type: [medicine type]\<newline>Use: [primary use]\<newline>Class: [drug class]\<newline>Form: [common form]\<newline>\<newline>If you don't recognize the medicine name or it doesn't appear to be a valid medicine, respond with:\<newline>Type: Unknown\<newline>Use: Unable to determine - please verify medicine name\<newline>Class: Unknown\<newline>Form: Unknown''"

definition default_info :: medicine_info where
  "default_info =
     [''type'' \<mapsto> ''Unknown'', ''use'' \<mapsto> ''Unknown'',
      ''drug_class'' \<mapsto> ''Unknown'', ''form'' \<mapsto> ''Unknown'']"

text \<open>The body of the loop of \<open>_parse_llm_response\<close>, for one line.\<close>

definition parse_line :: "medicine_info \<Rightarrow> string \<Rightarrow> medicine_info" where
  "parse_line info line0 =
     (let line = strip line0
      in case split_colon line of
           None \<Rightarrow> info
         | Some (k, v) \<Rightarrow>
             let key = lower (strip k); val = strip v
             in if key = ''type'' then info(''type'' \<mapsto> val)
                else if key = ''use'' then info(''use'' \<mapsto> val)
                else if key = ''class'' then info(''drug_class'' \<mapsto> val)
                else if key = ''form'' then info(''form'' \<mapsto> val)
                else info)"

definition parse_llm_response :: "string \<Rightarrow> medicine_info" where
  "parse_llm_response response_text =
     foldl parse_line default_info (split_lines (strip response_text))"

text \<open>
  The external service. \<open>self.client.chat.completions.create(...)\<close> either raises an
  exception (carried as its message \<open>str(e)\<close>) or returns a response, of which the code
  reads \<open>choices[i].message.content\<close>: the list of these contents, each a string or
  \<open>None\<close>. The service is a transition on its own state \<open>'c\<close>, so that the number of
  requests made is visible. Exceptions are those of class \<open>Exception\<close>, which the
  \<open>except\<close> clause of \<open>analyze_medicine\<close> catches.
\<close>

datatype api_outcome = Raised string | Completion "string option list"

type_synonym 'c llm_client = "'c \<Rightarrow> (string \<times> string) list \<Rightarrow> api_outcome \<times> 'c"

definition error_info :: "string \<Rightarrow> medicine_info" where
  "error_info msg =
     [''type'' \<mapsto> ''Error'', ''use'' \<mapsto> ''Failed to analyze: '' @ msg,
      ''drug_class'' \<mapsto> ''Unknown'', ''form'' \<mapsto> ''Unknown'']"

text \<open>
  \<open>response.choices[0].message.content.strip()\<close>: an empty list of choices raises
  IndexError, a content of \<open>None\<close> raises AttributeError; \<open>Inl\<close> carries the message.
\<close>

definition response_content :: "string option list \<Rightarrow> string + string" where
  "response_content choices =
     (case choices of
        [] \<Rightarrow> Inl ''list index out of range''
      | None # _ \<Rightarrow> Inl (CHR 0x27 # ''NoneType' object has no attribute 'strip'' @ [CHR 0x27])
      | Some content # _ \<Rightarrow> Inr (strip content))"

text \<open>The \<open>messages\<close> argument of the request: pairs of role and content.\<close>

definition chat_messages :: "string \<Rightarrow> (string \<times> string) list" where
  "chat_messages prompt =
     [(''system'', ''You are a pharmaceutical expert providing accurate medicine information.''),
      (''user'', prompt)]"

definition analyze_medicine :: "'c llm_client \<Rightarrow> 'c \<Rightarrow> string \<Rightarrow> medicine_info \<times> 'c" where
  "analyze_medicine client c medicine_name =
     (let prompt = create_medicine_analysis_prompt medicine_name;
          (outcome, c') = client c (chat_messages prompt)
      in case outcome of
           Raised e \<Rightarrow> (error_info e, c')
         | Completion choices \<Rightarrow>
             (case response_content choices of
                Inl e \<Rightarrow> (error_info e, c')
              | Inr response_text \<Rightarrow> (parse_llm_response response_text, c')))"

text \<open>A service that counts the requests it receives and answers by \<open>answer\<close>.\<close>

definition counting_client :: "(nat \<Rightarrow> (string \<times> string) list \<Rightarrow> api_outcome) \<Rightarrow> nat llm_client" where
  "counting_client answer n messages = (answer n messages, Suc n)"

text \<open>
  Four such services: one that answers every request by \<open>text\<close>, one that raises, one
  whose response has no choice, one whose first choice has no content.
\<close>

definition answering :: "string \<Rightarrow> nat llm_client" where
  "answering text = counting_client (\<lambda>n messages. Completion [Some text])"

definition failing :: "string \<Rightarrow> nat llm_client" where
  "failing msg = counting_client (\<lambda>n messages. Raised msg)"

definition silent :: "nat llm_client" where
  "silent = counting_client (\<lambda>n messages. Completion [])"

definition contentless :: "nat llm_client" where
  "contentless = counting_client (\<lambda>n messages. Completion [None])"

section \<open>ocr\_reader.py\<close>

text \<open>
  A frame is modelled by what the OCR engine does on it: \<open>self.reader.readtext(frame)\<close>
  raises, or returns a list of (bounding box, text, confidence). Confidences and times
  are Python floats, modelled as reals.
\<close>

datatype 'b ocr_outcome = OcrRaised string | OcrResults "('b \<times> string \<times> real) list"

definition read_text_from_frame :: "real \<Rightarrow> 'b ocr_outcome \<Rightarrow> (string \<times> real) list" where
  "read_text_from_frame confidence_threshold frame =
     (case frame of
        OcrRaised e \<Rightarrow> []
      | OcrResults results \<Rightarrow>
          map (\<lambda>(_, text, confidence). (text, confidence))
            (filter (\<lambda>(_, text, confidence). confidence \<ge> confidence_threshold) results))"

section \<open>medicine\_scanner.py\<close>

record 'c scanner =
  confidence_threshold :: real
  medicine_db :: "string list"
  llm :: 'c
  last_scan_time :: real
  scan_interval :: real
  last_detected_medicine :: "string option"
  last_analysis :: "medicine_info option"

definition should_scan :: "real \<Rightarrow> 'c scanner \<Rightarrow> bool" where
  "should_scan current_time s \<longleftrightarrow> current_time - last_scan_time s \<ge> scan_interval s"

text \<open>
  The loop of \<open>_detect_medicine_from_frame\<close> over the observations. \<open>if matched_medicine:\<close>
  tests the truth value of an optional string: \<open>None\<close> and the empty string are false.
\<close>

fun detect_loop ::
  "(string \<Rightarrow> string \<Rightarrow> int) \<Rightarrow> string list \<Rightarrow> (string \<times> real) list \<Rightarrow> string option" where
  "detect_loop ratio meds [] = None"
| "detect_loop ratio meds ((text, confidence) # rest) =
     (let text_cleaned = strip text;
          matched_medicine = search_medicine ratio meds text_cleaned 80
      in if matched_medicine \<noteq> None \<and> matched_medicine \<noteq> Some []
         then matched_medicine
         else if confidence > 7 / 10 \<and> length text_cleaned > 3
         then Some text_cleaned
         else detect_loop ratio meds rest)"

definition detect_medicine_from_frame ::
  "(string \<Rightarrow> string \<Rightarrow> int) \<Rightarrow> 'c scanner \<Rightarrow> 'b ocr_outcome \<Rightarrow> string option" where
  "detect_medicine_from_frame ratio s frame =
     (let text_results = read_text_from_frame (confidence_threshold s) frame
      in if text_results = [] then None
         else detect_loop ratio (medicine_db s) text_results)"

text \<open>
  \<open>_perform_scan\<close>, with \<open>now\<close> the value of \<open>time.time()\<close> at its first line.
  \<open>if medicine_name:\<close> is again a truth value test.
\<close>

definition perform_scan ::
  "(string \<Rightarrow> string \<Rightarrow> int) \<Rightarrow> 'c llm_client \<Rightarrow> real \<Rightarrow> 'b ocr_outcome \<Rightarrow> 'c scanner
     \<Rightarrow> 'c scanner" where
  "perform_scan ratio client now frame s =
     (let s1 = s\<lparr>last_scan_time := now\<rparr>
      in case detect_medicine_from_frame ratio s1 frame of
           None \<Rightarrow> s1
         | Some medicine_name \<Rightarrow>
             if medicine_name = [] then s1
             else
               (case analyze_medicine client (llm s1) medicine_name of
                  (analysis, c') \<Rightarrow>
                    s1\<lparr>llm := c', last_detected_medicine := Some medicine_name,
                       last_analysis := Some analysis\<rparr>))"

text \<open>The branch of \<open>run\<close> for the key R.\<close>

definition reset :: "'c scanner \<Rightarrow> 'c scanner" where
  "reset s = s\<lparr>last_detected_medicine := None, last_analysis := None\<rparr>"

text \<open>
  One pass of the loop of \<open>run\<close> after the frame is read and shown: the key decides.
  \<open>now_check\<close> is the clock read by \<open>_should_scan\<close>, \<open>now_scan\<close> the one read by
  \<open>_perform_scan\<close>; \<open>None\<close> is the end of the loop.
\<close>

datatype key = KeyQ | KeyS | KeyR | NoKey

definition run_step ::
  "(string \<Rightarrow> string \<Rightarrow> int) \<Rightarrow> 'c llm_client \<Rightarrow> key \<Rightarrow> real \<Rightarrow> real \<Rightarrow> 'b ocr_outcome
     \<Rightarrow> 'c scanner \<Rightarrow> 'c scanner option" where
  "run_step ratio client k now_check now_scan frame s =
     (case k of
        KeyQ \<Rightarrow> None
      | KeyS \<Rightarrow> Some (perform_scan ratio client now_scan frame s)
      | KeyR \<Rightarrow> Some (reset s)
      | NoKey \<Rightarrow>
          if should_scan now_check s then Some (perform_scan ratio client now_scan frame s)
          else Some s)"

text \<open>A scanner as \<open>__init__\<close> leaves it, with a catalog of two names and the default settings.\<close>

definition example_scanner :: "nat scanner" where
  "example_scanner =
     \<lparr>confidence_threshold = 1 / 2, medicine_db = [''Aspirin'', ''Ibuprofen''], llm = 0,
      last_scan_time = 0, scan_interval = 2,
      last_detected_medicine = None, last_analysis = None\<rparr>"

section \<open>The statements of the acceptance policy\<close>

text \<open>
  What one observation is accepted as, in the words of the policy: the catalog match when
  the catalog gives a non-empty one; otherwise the trimmed text when the confidence
  exceeds 0.7 and the trimmed text is longer than 3; otherwise nothing.
\<close>

definition accepted_name ::
  "(string \<Rightarrow> string \<Rightarrow> int) \<Rightarrow> string list \<Rightarrow> string \<times> real \<Rightarrow> string option" where
  "accepted_name ratio meds ob =
     (case search_medicine ratio meds (strip (fst ob)) 80 of
        Some m \<Rightarrow>
          if m \<noteq> [] then Some m
          else if 7 / 10 < snd ob \<and> 3 < length (strip (fst ob)) then Some (strip (fst ob))
          else None
      | None \<Rightarrow>
          if 7 / 10 < snd ob \<and> 3 < length (strip (fst ob)) then Some (strip (fst ob))
          else None)"

section \<open>The statements of the response format\<close>

text \<open>
  What one line of a response says, in the words of the format: the key before the first
  colon, trimmed and in lower case, and the trimmed value after it; nothing for a line
  without colon. \<open>last_value key ls\<close> is the value of the last line of \<open>ls\<close> whose key
  is \<open>key\<close>, \<open>field_value\<close> the same with the default for a key no line has.
\<close>

definition line_entry :: "string \<Rightarrow> (string \<times> string) option" where
  "line_entry line0 =
     (case split_colon (strip line0) of
        None \<Rightarrow> None
      | Some (k, v) \<Rightarrow> Some (lower (strip k), strip v))"

fun last_value :: "string \<Rightarrow> string list \<Rightarrow> string option" where
  "last_value key [] = None"
| "last_value key (l # ls) =
     (case last_value key ls of
        Some v \<Rightarrow> Some v
      | None \<Rightarrow>
          (case line_entry l of
             None \<Rightarrow> None
           | Some (k, v) \<Rightarrow> if k = key then Some v else None))"

definition field_value :: "string \<Rightarrow> string list \<Rightarrow> string" where
  "field_value key ls = (case last_value key ls of None \<Rightarrow> ''Unknown'' | Some v \<Rightarrow> v)"

definition upd_field :: "medicine_info \<Rightarrow> string \<Rightarrow> string \<Rightarrow> string list \<Rightarrow> string option" where
  "upd_field info f key ls = (case last_value key ls of None \<Rightarrow> info f | Some v \<Rightarrow> Some v)"

section \<open>Facts about the string primitives and the catalog scans\<close>

lemma isspace_lower_char: "isspace (lower_char c) = isspace c"
  unfolding isspace_def lower_char_def Let_def by auto

lemma lower_dropWhile: "lower (dropWhile isspace s) = dropWhile isspace (lower s)"
  by (simp add: lower_def dropWhile_map comp_def isspace_lower_char)

lemma lower_rev: "lower (rev s) = rev (lower s)"
  by (simp add: lower_def rev_map)

lemma lower_strip: "lower (strip s) = strip (lower s)"
  by (simp add: strip_def lower_rev lower_dropWhile)

lemma exact_match_find: "exact_match ms ql = List.find (\<lambda>m. lower m = ql) ms"
  by (induction ms) auto

lemma Max_insert_le:
  fixes a b :: int
  assumes "finite S" "a \<le> b"
  shows "Max (insert a (insert b S)) = Max (insert b S)"
proof -
  have "b \<le> Max (insert b S)" using assms(1) by simp
  then have "a \<le> Max (insert b S)" using assms(2) by linarith
  moreover have "Max (insert a (insert b S)) = max a (Max (insert b S))"
    using assms(1) by (simp del: Max_insert add: Max_insert[of "insert b S" a])
  ultimately show ?thesis by (simp add: max_def)
qed

lemma fuzzy_scan_snd:
  "snd (fuzzy_scan ratio ql ms (bm, bs)) = Max (insert bs ((\<lambda>m. ratio ql (lower m)) ` set ms))"
proof (induction ms arbitrary: bm bs)
  case Nil
  then show ?case by simp
next
  case (Cons m ms)
  let ?S = "(\<lambda>m. ratio ql (lower m)) ` set ms"
  have fin: "finite ?S" by simp
  show ?case
  proof (cases "ratio ql (lower m) > bs")
    case True
    then have "Max (insert bs (insert (ratio ql (lower m)) ?S)) = Max (insert (ratio ql (lower m)) ?S)"
      using fin by (intro Max_insert_le) auto
    with True Cons show ?thesis by (simp del: Max_insert add: Let_def)
  next
    case False
    then have "Max (insert (ratio ql (lower m)) (insert bs ?S)) = Max (insert bs ?S)"
      using fin by (intro Max_insert_le) auto
    then have "Max (insert bs (insert (ratio ql (lower m)) ?S)) = Max (insert bs ?S)"
      by (simp only: insert_commute)
    with False Cons show ?thesis by (simp del: Max_insert add: Let_def)
  qed
qed

lemma fuzzy_scan_fst:
  "fst (fuzzy_scan ratio ql ms (bm, bs)) =
     (if \<exists>m \<in> set ms. ratio ql (lower m) > bs
      then List.find (\<lambda>m. ratio ql (lower m) = Max (insert bs ((\<lambda>m. ratio ql (lower m)) ` set ms))) ms
      else bm)"
proof (induction ms arbitrary: bm bs)
  case Nil
  then show ?case by simp
next
  case (Cons m ms)
  let ?f = "\<lambda>m. ratio ql (lower m)"
  let ?S = "?f ` set ms"
  have fin: "finite ?S" by simp
  show ?case
  proof (cases "?f m > bs")
    case True
    have mx: "Max (insert bs (?f ` set (m # ms))) = Max (insert (?f m) ?S)"
      using True fin Max_insert_le[of ?S bs "?f m"] by (simp del: Max_insert)
    show ?thesis
    proof (cases "\<exists>m' \<in> set ms. ?f m' > ?f m")
      case ex: True
      then have "Max (insert (?f m) ?S) > ?f m"
        using fin by (subst Max_gr_iff) auto
      then show ?thesis using True ex mx Cons.IH[of "Some m" "?f m"]
        by (simp del: Max_insert add: Let_def)
    next
      case nex: False
      then have "Max (insert (?f m) ?S) = ?f m"
        using fin by (intro Max_eqI) (auto simp: not_less)
      then show ?thesis using True nex mx Cons.IH[of "Some m" "?f m"]
        by (simp del: Max_insert add: Let_def)
    qed
  next
    case False
    have mx: "Max (insert bs (?f ` set (m # ms))) = Max (insert bs ?S)"
    proof -
      have "insert bs (?f ` set (m # ms)) = insert (?f m) (insert bs ?S)" by auto
      then show ?thesis using False fin Max_insert_le[of ?S "?f m" bs] by (simp del: Max_insert)
    qed
    show ?thesis
    proof (cases "\<exists>m' \<in> set ms. ?f m' > bs")
      case ex: True
      then have "Max (insert bs ?S) > bs"
        using fin by (subst Max_gr_iff) auto
      then have "?f m \<noteq> Max (insert bs ?S)" using False by simp
      then show ?thesis using False ex mx Cons.IH[of bm bs]
        by (simp del: Max_insert add: Let_def)
    next
      case nex: False
      then show ?thesis using False Cons.IH[of bm bs] by (simp del: Max_insert add: Let_def)
    qed
  qed
qed

section \<open>The catalog: search, ranking, append\<close>

text \<open>
  C3. For a non-empty catalog, an entry \<open>e\<close> of it and a query that equals \<open>e\<close> up to
  letter case after trimming, \<open>search_medicine\<close> returns the first entry of the catalog
  that equals \<open>e\<close> up to letter case: the result does not depend on the threshold nor
  on the score function (the fuzzy pass has no part in it), and it is \<open>e\<close> itself when no
  earlier entry equals \<open>e\<close> up to letter case.
\<close>

theorem search_medicine_exact:
  assumes "e \<in> set medicines" and "lower (strip query) = lower e"
  shows "search_medicine ratio medicines query threshold
           = List.find (\<lambda>m. lower m = lower e) medicines
         \<and> (\<exists>m \<in> set medicines. lower m = lower e
              \<and> search_medicine ratio medicines query threshold = Some m)
         \<and> ((\<forall>m \<in> set (takeWhile (\<lambda>m. m \<noteq> e) medicines). lower m \<noteq> lower e)
              \<longrightarrow> search_medicine ratio medicines query threshold = Some e)"
proof -
  let ?P = "\<lambda>m. lower m = lower e"
  have ne: "medicines \<noteq> []" using assms(1) by auto
  have ql: "strip (lower query) = lower e" using assms(2) by (simp add: lower_strip)
  obtain m where m: "List.find ?P medicines = Some m"
    using assms(1) by (cases "List.find ?P medicines") (auto simp: find_None_iff)
  have s: "search_medicine ratio medicines query threshold = List.find ?P medicines"
    using ne ql m by (simp add: search_medicine_def exact_match_find)
  have mem: "m \<in> set medicines \<and> lower m = lower e"
    using m by (auto simp: find_Some_iff)
  have first: "List.find ?P medicines = Some e"
    if "\<forall>m \<in> set (takeWhile (\<lambda>m. m \<noteq> e) medicines). lower m \<noteq> lower e"
    using that assms(1)
  proof (induction medicines)
    case Nil
    then show ?case by simp
  next
    case (Cons a as)
    then show ?case by (cases "a = e") auto
  qed
  show ?thesis using s m mem first by auto
qed

theorem search_medicine_exact_witness:
  "search_medicine fuzz_ratio [''Paracetamol'', ''Aspirin''] ''  ASPIRIN '' 101 = Some ''Aspirin''"
proof -
  have h1: "''Aspirin'' \<in> set [''Paracetamol'', ''Aspirin'']" by simp
  have h2: "lower (strip ''  ASPIRIN '') = lower ''Aspirin''" by code_simp
  have h3: "\<forall>m \<in> set (takeWhile (\<lambda>m. m \<noteq> ''Aspirin'') [''Paracetamol'', ''Aspirin'']).
              lower m \<noteq> lower ''Aspirin''" by code_simp
  from search_medicine_exact[OF h1 h2, of fuzz_ratio 101] h3 show ?thesis by blast
qed

text \<open>
  What the fuzzy pass computes, for a non-empty catalog and a query with no exact hit:
  with \<open>best\<close> the maximum of the scores of the entries against the normalized query, the
  result is the first entry of score \<open>best\<close>, in catalog order, when \<open>best\<close> is at least the
  threshold and above the initial \<open>best_score\<close> of 0, and nothing otherwise.
\<close>

lemma search_medicine_fuzzy_result:
  assumes "medicines \<noteq> []"
    and "\<forall>m \<in> set medicines. lower m \<noteq> strip (lower query)"
  shows "search_medicine ratio medicines query threshold =
           (let score = (\<lambda>m. ratio (strip (lower query)) (lower m));
                best = Max (score ` set medicines)
            in if 0 < best \<and> threshold \<le> best
               then List.find (\<lambda>m. score m = best) medicines
               else None)
         \<and> (let score = (\<lambda>m. ratio (strip (lower query)) (lower m));
                best = Max (score ` set medicines)
            in 0 < best \<and> threshold \<le> best \<longrightarrow>
                 (\<exists>m \<in> set medicines. score m = best
                    \<and> search_medicine ratio medicines query threshold = Some m))"
proof -
  let ?ql = "strip (lower query)"
  let ?f = "\<lambda>m. ratio ?ql (lower m)"
  let ?S = "?f ` set medicines"
  let ?best = "Max ?S"
  have fin: "finite ?S" and neS: "?S \<noteq> {}" using assms(1) by auto
  have ex: "exact_match medicines ?ql = None"
    using assms(2) by (simp add: exact_match_find find_None_iff)
  obtain bm bs where fz: "fuzzy_scan ratio ?ql medicines (None, 0) = (bm, bs)"
    by (cases "fuzzy_scan ratio ?ql medicines (None, 0)")
  have bs: "bs = Max (insert 0 ?S)"
    using fuzzy_scan_snd[of ratio ?ql medicines None 0] fz by simp
  have bm: "bm = (if \<exists>m \<in> set medicines. ?f m > 0
                  then List.find (\<lambda>m. ?f m = Max (insert 0 ?S)) medicines else None)"
    using fuzzy_scan_fst[of ratio ?ql medicines None 0] fz by simp
  have mx: "Max (insert 0 ?S) = max 0 ?best"
    using fin neS by simp
  have pos: "(\<exists>m \<in> set medicines. ?f m > 0) \<longleftrightarrow> 0 < ?best"
    using fin neS by (subst Max_gr_iff) auto
  have s: "search_medicine ratio medicines query threshold =
             (if 0 < ?best \<and> threshold \<le> ?best
              then List.find (\<lambda>m. ?f m = ?best) medicines else None)"
  proof (cases "0 < ?best")
    case True
    then have "Max (insert 0 ?S) = ?best" using mx by (simp add: max_def)
    then show ?thesis using True assms(1) ex fz bs bm pos
      by (simp add: search_medicine_def Let_def del: Max_insert)
  next
    case False
    then show ?thesis using assms(1) ex fz bs bm pos
      by (simp add: search_medicine_def Let_def del: Max_insert)
  qed
  have "?best \<in> ?S" using fin neS by (rule Max_in)
  then obtain m0 where m0: "m0 \<in> set medicines" "?f m0 = ?best" by auto
  then obtain m where m: "List.find (\<lambda>m. ?f m = ?best) medicines = Some m"
    by (cases "List.find (\<lambda>m. ?f m = ?best) medicines") (auto simp: find_None_iff)
  then have mem: "m \<in> set medicines \<and> ?f m = ?best"
    by (auto simp: find_Some_iff)
  show ?thesis unfolding Let_def using s m mem by auto
qed

text \<open>
  For a positive threshold the first entry of maximal score is returned if and only if
  that maximum is at least the threshold.
\<close>

lemma search_medicine_fuzzy_positive:
  assumes "medicines \<noteq> []"
    and "\<forall>m \<in> set medicines. lower m \<noteq> strip (lower query)"
    and "0 < threshold"
  shows "search_medicine ratio medicines query threshold =
           (let score = (\<lambda>m. ratio (strip (lower query)) (lower m));
                best = Max (score ` set medicines)
            in if threshold \<le> best
               then List.find (\<lambda>m. score m = best) medicines
               else None)"
proof -
  let ?best = "Max ((\<lambda>m. ratio (strip (lower query)) (lower m)) ` set medicines)"
  have "(0 < ?best \<and> threshold \<le> ?best) = (threshold \<le> ?best)"
    using assms(3) by linarith
  then show ?thesis
    using search_medicine_fuzzy_result[OF assms(1) assms(2), of ratio threshold, THEN conjunct1]
    by (simp only: Let_def)
qed

lemma search_medicine_fuzzy_example:
  "search_medicine fuzz_ratio [''Ibuprofen'', ''Aspirin'', ''aspirin''] ''Aspirn'' 80 = Some ''Aspirin''"
proof -
  have h1: "[''Ibuprofen'', ''Aspirin'', ''aspirin''] \<noteq> []" by simp
  have h2: "\<forall>m \<in> set [''Ibuprofen'', ''Aspirin'', ''aspirin'']. lower m \<noteq> strip (lower ''Aspirn'')"
    by code_simp
  have h3: "(0::int) < 80" by simp
  have v: "(let score = (\<lambda>m. fuzz_ratio (strip (lower ''Aspirn'')) (lower m));
                best = Max (score ` set [''Ibuprofen'', ''Aspirin'', ''aspirin''])
            in if 80 \<le> best
               then List.find (\<lambda>m. score m = best) [''Ibuprofen'', ''Aspirin'', ''aspirin'']
               else None) = Some ''Aspirin''"
    by code_simp
  from search_medicine_fuzzy_positive[OF h1 h2 h3, of fuzz_ratio] v show ?thesis by simp
qed

text \<open>
  C4. For a non-empty catalog and a query with no exact hit, the entry of maximal score is
  to be returned if and only if that maximum is at least the threshold. The code misses
  this where the maximum is 0 and the threshold is 0: for the catalog of the one name xyz
  and the query abc there is no exact hit and the score of the only entry is 0, which is
  at least the threshold, yet \<open>search_medicine\<close> returns nothing, since \<open>best_match\<close> is
  replaced only by a score above the initial \<open>best_score\<close> of 0. \<open>get_best_matches\<close> does
  return the entry with its score of 0.
\<close>

theorem search_medicine_zero_threshold:
  "exact_match [''xyz''] (strip (lower ''abc'')) = None
   \<and> fuzz_ratio (strip (lower ''abc'')) (lower ''xyz'') = 0
   \<and> fuzzy_scan fuzz_ratio (strip (lower ''abc'')) [''xyz''] (None, 0) = (None, 0)
   \<and> search_medicine fuzz_ratio [''xyz''] ''abc'' 0 = None
   \<and> get_best_matches fuzz_ratio [''xyz''] ''abc'' 5 = [(''xyz'', 0)]"
  by code_simp

text \<open>
  C9. The list returned by \<open>get_best_matches\<close> is in descending order of score, and for
  every score the entries of that score appear as in the catalog: they are an initial part
  of the catalog's entries of that score, in catalog order.
\<close>

theorem get_best_matches_sorted_stable:
  "sorted_wrt (\<lambda>a b. snd a \<ge> snd b) (get_best_matches ratio medicines query top_n)
   \<and> (\<forall>k. prefix (filter (\<lambda>x. snd x = k) (get_best_matches ratio medicines query top_n))
             (filter (\<lambda>x. snd x = k)
                (map (\<lambda>m. (m, ratio (strip (lower query)) (lower m))) medicines)))"
proof -
  let ?matches = "map (\<lambda>m. (m, ratio (strip (lower query)) (lower m))) medicines"
  let ?sorted = "sort_reverse snd ?matches"
  have g: "get_best_matches ratio medicines query top_n = slice_to ?sorted top_n"
    by (cases "medicines = []") (simp_all add: get_best_matches_def slice_to_def sort_reverse_def)
  obtain j where j: "slice_to ?sorted top_n = take j ?sorted"
    by (cases "0 \<le> top_n") (auto simp: slice_to_def)
  have "sorted (map (\<lambda>x. - snd x) ?sorted)"
    unfolding sort_reverse_def by (rule sorted_sort_key)
  then have "sorted_wrt (\<lambda>a b. snd a \<ge> snd b) ?sorted"
    by (simp add: sorted_map)
  then have 1: "sorted_wrt (\<lambda>a b. snd a \<ge> snd b) (take j ?sorted)"
    by (rule sorted_wrt_take)
  have st: "filter (\<lambda>x. snd x = k) ?sorted = filter (\<lambda>x. snd x = k) ?matches" for k
    using sort_key_stable[of "\<lambda>x. - snd x" "- k" ?matches]
    by (simp add: sort_reverse_def)
  have 2: "prefix (filter (\<lambda>x. snd x = k) (take j ?sorted)) (filter (\<lambda>x. snd x = k) ?matches)" for k
  proof -
    have "prefix (take j ?sorted) ?sorted" by (rule take_is_prefix)
    then have "prefix (filter (\<lambda>x. snd x = k) (take j ?sorted)) (filter (\<lambda>x. snd x = k) ?sorted)"
      by (rule filter_mono_prefix)
    then show ?thesis by (simp only: st)
  qed
  show ?thesis using g j 1 2 by simp
qed

text \<open>
  C10. \<open>add_medicine\<close> appends the trimmed name at the end of the catalog when it is
  non-empty and not yet an entry, and leaves the catalog unchanged otherwise; the old
  catalog is an initial part of the new one, which is longer by at most one entry, has no
  repetition when the old one had none, and holds no name more often than before or once.
\<close>

theorem add_medicine_append_only:
  "(strip medicine_name \<noteq> [] \<and> strip medicine_name \<notin> set medicines
      \<longrightarrow> add_medicine medicines medicine_name = medicines @ [strip medicine_name])
   \<and> (strip medicine_name = [] \<or> strip medicine_name \<in> set medicines
      \<longrightarrow> add_medicine medicines medicine_name = medicines)
   \<and> prefix medicines (add_medicine medicines medicine_name)
   \<and> length (add_medicine medicines medicine_name) \<le> length medicines + 1
   \<and> (distinct medicines \<longrightarrow> distinct (add_medicine medicines medicine_name))
   \<and> (\<forall>x. count_list (add_medicine medicines medicine_name) x \<le> max 1 (count_list medicines x))"
  by (auto simp: add_medicine_def Let_def count_list_0_iff)

theorem add_medicine_append_only_witness:
  "add_medicine [''Aspirin''] ''  Ibuprofen '' = [''Aspirin'', ''Ibuprofen'']
   \<and> add_medicine [''Aspirin''] ''Aspirin '' = [''Aspirin'']
   \<and> add_medicine [''Aspirin''] ''   '' = [''Aspirin'']
   \<and> distinct (add_medicine [''Aspirin''] ''  Ibuprofen '')"
proof -
  have s1: "strip ''  Ibuprofen '' = ''Ibuprofen''" by code_simp
  have s2: "strip ''Aspirin '' = ''Aspirin''" by code_simp
  have s3: "strip ''   '' = ''''" by code_simp
  have d: "distinct [''Aspirin'']" by simp
  show ?thesis
    using add_medicine_append_only[of "''  Ibuprofen ''" "[''Aspirin'']"]
      add_medicine_append_only[of "''Aspirin ''" "[''Aspirin'']"]
      add_medicine_append_only[of "''   ''" "[''Aspirin'']"] d
    by (simp add: s1 s2 s3)
qed

section \<open>The response parser\<close>

lemma split_colon_first:
  assumes "CHR '':'' \<notin> set k"
  shows "split_colon (k @ CHR '':'' # v) = Some (k, v)"
proof -
  have all: "\<forall>x \<in> set k. x \<noteq> CHR '':''" using assms by blast
  then have 1: "dropWhile (\<lambda>c. c \<noteq> CHR '':'') (k @ CHR '':'' # v) = CHR '':'' # v"
    by (simp add: dropWhile_append2)
  from all have 2: "takeWhile (\<lambda>c. c \<noteq> CHR '':'') (k @ CHR '':'' # v) = k"
    by (simp add: takeWhile_append2)
  show ?thesis by (simp only: split_colon_def 1 2 list.case)
qed

lemma split_colon_none: "CHR '':'' \<notin> set l \<Longrightarrow> split_colon l = None"
proof -
  assume "CHR '':'' \<notin> set l"
  then have "\<forall>x \<in> set l. x \<noteq> CHR '':''" by blast
  then have "dropWhile (\<lambda>c. c \<noteq> CHR '':'') l = []"
    by (simp only: dropWhile_eq_Nil_conv)
  then show ?thesis by (simp only: split_colon_def list.case)
qed

lemma parse_line_entry:
  "parse_line info l =
     (case line_entry l of
        None \<Rightarrow> info
      | Some (key, val) \<Rightarrow>
          if key = ''type'' then info(''type'' \<mapsto> val)
          else if key = ''use'' then info(''use'' \<mapsto> val)
          else if key = ''class'' then info(''drug_class'' \<mapsto> val)
          else if key = ''form'' then info(''form'' \<mapsto> val)
          else info)"
  by (simp add: parse_line_def line_entry_def Let_def split: option.splits prod.splits)

lemma last_value_snoc:
  "last_value key (ls @ [l]) =
     (case line_entry l of
        None \<Rightarrow> last_value key ls
      | Some (k, v) \<Rightarrow> if k = key then Some v else last_value key ls)"
  by (induction ls) (auto split: option.splits prod.splits)

lemma foldl_parse_line:
  "foldl parse_line info ls =
     (\<lambda>f. if f = ''type'' then upd_field info f ''type'' ls
          else if f = ''use'' then upd_field info f ''use'' ls
          else if f = ''drug_class'' then upd_field info f ''class'' ls
          else if f = ''form'' then upd_field info f ''form'' ls
          else info f)"
proof (induction ls rule: rev_induct)
  case Nil
  then show ?case by (auto simp: upd_field_def)
next
  case (snoc l ls)
  have step: "foldl parse_line info (ls @ [l]) = parse_line (foldl parse_line info ls) l"
    by simp
  show ?case
  proof (cases "line_entry l")
    case None
    then show ?thesis unfolding step snoc
      by (intro ext) (simp add: parse_line_entry last_value_snoc upd_field_def)
  next
    case (Some kv)
    obtain k v where kv: "kv = (k, v)" by (cases kv)
    show ?thesis unfolding step snoc
      by (rule ext) (simp add: parse_line_entry last_value_snoc upd_field_def Some kv)
  qed
qed

lemma last_value_absent:
  "\<forall>l \<in> set ls. map_option fst (line_entry l) \<noteq> Some key \<Longrightarrow> last_value key ls = None"
  by (induction ls) (auto split: option.splits)

lemma parse_llm_response_eq:
  "parse_llm_response response_text =
     [''type'' \<mapsto> field_value ''type'' (split_lines (strip response_text)),
      ''use'' \<mapsto> field_value ''use'' (split_lines (strip response_text)),
      ''drug_class'' \<mapsto> field_value ''class'' (split_lines (strip response_text)),
      ''form'' \<mapsto> field_value ''form'' (split_lines (strip response_text))]"
  unfolding parse_llm_response_def foldl_parse_line
  by (rule ext) (simp add: upd_field_def field_value_def default_info_def split: option.splits)

lemma parse_line_ignored:
  "map_option fst (line_entry l) \<notin> {Some ''type'', Some ''use'', Some ''class'', Some ''form''}
     \<Longrightarrow> parse_line info l = info"
  by (auto simp: parse_line_entry split: option.splits)

text \<open>
  C5. For every response text, \<open>parse_llm_response\<close> returns a dict with exactly the
  fields type, use, drug\_class and form (the function is total: there is no input on which
  it fails). Each field holds the trimmed value of the last line whose key, the trimmed
  text before the first colon taken in lower case, is type, use, class or form, and
  "Unknown" when no line has that key; a line with another key or without colon changes
  nothing. The two responses of the specification parse as it says.
\<close>

theorem parse_llm_response_fields:
  "parse_llm_response response_text =
     [''type'' \<mapsto> field_value ''type'' (split_lines (strip response_text)),
      ''use'' \<mapsto> field_value ''use'' (split_lines (strip response_text)),
      ''drug_class'' \<mapsto> field_value ''class'' (split_lines (strip response_text)),
      ''form'' \<mapsto> field_value ''form'' (split_lines (strip response_text))]
   \<and> dom (parse_llm_response response_text) = {''type'', ''use'', ''drug_class'', ''form''}
   \<and> ((\<forall>l \<in> set (split_lines (strip response_text)). map_option fst (line_entry l) \<noteq> Some ''type'')
        \<longrightarrow> parse_llm_response response_text ''type'' = Some ''Unknown'')
   \<and> ((\<forall>l \<in> set (split_lines (strip response_text)). map_option fst (line_entry l) \<noteq> Some ''use'')
        \<longrightarrow> parse_llm_response response_text ''use'' = Some ''Unknown'')
   \<and> ((\<forall>l \<in> set (split_lines (strip response_text)). map_option fst (line_entry l) \<noteq> Some ''class'')
        \<longrightarrow> parse_llm_response response_text ''drug_class'' = Some ''Unknown'')
   \<and> ((\<forall>l \<in> set (split_lines (strip response_text)). map_option fst (line_entry l) \<noteq> Some ''form'')
        \<longrightarrow> parse_llm_response response_text ''form'' = Some ''Unknown'')
   \<and> (CHR '':'' \<notin> set k \<longrightarrow> split_colon (k @ CHR '':'' # v) = Some (k, v))
   \<and> (map_option fst (line_entry l) \<notin> {Some ''type'', Some ''use'', Some ''class'', Some ''form''}
        \<longrightarrow> parse_line info l = info)
   \<and> parse_llm_response
        ''Type: Analgesic\<newline>Use: Pain relief\<newline>Class: NSAID\<newline>Form: Tablet''
      = [''type'' \<mapsto> ''Analgesic'', ''use'' \<mapsto> ''Pain relief'',
         ''drug_class'' \<mapsto> ''NSAID'', ''form'' \<mapsto> ''Tablet'']
   \<and> parse_llm_response ''Type: Analgesic\<newline>Use: Pain relief\<newline>Class: NSAID''
      = [''type'' \<mapsto> ''Analgesic'', ''use'' \<mapsto> ''Pain relief'',
         ''drug_class'' \<mapsto> ''NSAID'', ''form'' \<mapsto> ''Unknown'']"
proof -
  let ?ls = "split_lines (strip response_text)"
  have d: "dom (parse_llm_response response_text) = {''type'', ''use'', ''drug_class'', ''form''}"
    by (subst parse_llm_response_eq) auto
  have m: "parse_llm_response response_text f = Some ''Unknown''"
    if "\<forall>l \<in> set ?ls. map_option fst (line_entry l) \<noteq> Some key"
      and "(f, key) \<in> {(''type'', ''type''), (''use'', ''use''), (''drug_class'', ''class''), (''form'', ''form'')}"
    for f key
  proof -
    have "field_value key ?ls = ''Unknown''"
      using last_value_absent[OF that(1)] by (simp add: field_value_def)
    then show ?thesis using that(2) by (subst parse_llm_response_eq) auto
  qed
  have e1: "field_value ''type'' (split_lines (strip ''Type: Analgesic\<newline>Use: Pain relief\<newline>Class: NSAID\<newline>Form: Tablet'')) = ''Analgesic''"
    by code_simp
  have e2: "field_value ''use'' (split_lines (strip ''Type: Analgesic\<newline>Use: Pain relief\<newline>Class: NSAID\<newline>Form: Tablet'')) = ''Pain relief''"
    by code_simp
  have e3: "field_value ''class'' (split_lines (strip ''Type: Analgesic\<newline>Use: Pain relief\<newline>Class: NSAID\<newline>Form: Tablet'')) = ''NSAID''"
    by code_simp
  have e4: "field_value ''form'' (split_lines (strip ''Type: Analgesic\<newline>Use: Pain relief\<newline>Class: NSAID\<newline>Form: Tablet'')) = ''Tablet''"
    by code_simp
  have n1: "field_value ''type'' (split_lines (strip ''Type: Analgesic\<newline>Use: Pain relief\<newline>Class: NSAID'')) = ''Analgesic''"
    by code_simp
  have n2: "field_value ''use'' (split_lines (strip ''Type: Analgesic\<newline>Use: Pain relief\<newline>Class: NSAID'')) = ''Pain relief''"
    by code_simp
  have n3: "field_value ''class'' (split_lines (strip ''Type: Analgesic\<newline>Use: Pain relief\<newline>Class: NSAID'')) = ''NSAID''"
    by code_simp
  have n4: "field_value ''form'' (split_lines (strip ''Type: Analgesic\<newline>Use: Pain relief\<newline>Class: NSAID'')) = ''Unknown''"
    by code_simp
  have ex1: "parse_llm_response
        ''Type: Analgesic\<newline>Use: Pain relief\<newline>Class: NSAID\<newline>Form: Tablet''
      = [''type'' \<mapsto> ''Analgesic'', ''use'' \<mapsto> ''Pain relief'',
         ''drug_class'' \<mapsto> ''NSAID'', ''form'' \<mapsto> ''Tablet'']"
    by (simp only: parse_llm_response_eq e1 e2 e3 e4)
  have ex2: "parse_llm_response ''Type: Analgesic\<newline>Use: Pain relief\<newline>Class: NSAID''
      = [''type'' \<mapsto> ''Analgesic'', ''use'' \<mapsto> ''Pain relief'',
         ''drug_class'' \<mapsto> ''NSAID'', ''form'' \<mapsto> ''Unknown'']"
    by (simp only: parse_llm_response_eq n1 n2 n3 n4)
  have m1: "(\<forall>l \<in> set ?ls. map_option fst (line_entry l) \<noteq> Some ''type'')
        \<longrightarrow> parse_llm_response response_text ''type'' = Some ''Unknown''"
    using m[of "''type''" "''type''"] by simp
  have m2: "(\<forall>l \<in> set ?ls. map_option fst (line_entry l) \<noteq> Some ''use'')
        \<longrightarrow> parse_llm_response response_text ''use'' = Some ''Unknown''"
    using m[of "''use''" "''use''"] by simp
  have m3: "(\<forall>l \<in> set ?ls. map_option fst (line_entry l) \<noteq> Some ''class'')
        \<longrightarrow> parse_llm_response response_text ''drug_class'' = Some ''Unknown''"
    using m[of "''class''" "''drug_class''"] by simp
  have m4: "(\<forall>l \<in> set ?ls. map_option fst (line_entry l) \<noteq> Some ''form'')
        \<longrightarrow> parse_llm_response response_text ''form'' = Some ''Unknown''"
    using m[of "''form''" "''form''"] by simp
  have sc: "CHR '':'' \<notin> set k \<longrightarrow> split_colon (k @ CHR '':'' # v) = Some (k, v)"
    using split_colon_first by blast
  have ig: "map_option fst (line_entry l) \<notin> {Some ''type'', Some ''use'', Some ''class'', Some ''form''}
        \<longrightarrow> parse_line info l = info"
    using parse_line_ignored by blast
  show ?thesis
    using parse_llm_response_eq[of response_text] d m1 m2 m3 m4 sc ig ex1 ex2
    by (intro conjI)
qed

theorem parse_llm_response_fields_witness:
  "parse_llm_response ''  I do not know this medicine.\<newline>Sorry  '' ''type'' = Some ''Unknown''
   \<and> parse_llm_response ''  I do not know this medicine.\<newline>Sorry  '' ''use'' = Some ''Unknown''
   \<and> parse_llm_response ''  I do not know this medicine.\<newline>Sorry  '' ''drug_class'' = Some ''Unknown''
   \<and> parse_llm_response ''  I do not know this medicine.\<newline>Sorry  '' ''form'' = Some ''Unknown''
   \<and> split_colon ''TYPE : a:b'' = Some (''TYPE '', '' a:b'')
   \<and> parse_line default_info ''Note: take with food'' = default_info"
proof -
  let ?t = "''  I do not know this medicine.\<newline>Sorry  ''"
  have h: "\<forall>l \<in> set (split_lines (strip ?t)). map_option fst (line_entry l) \<noteq> Some key" for key
    by code_simp
  have hk: "CHR '':'' \<notin> set ''TYPE ''" by simp
  have hl: "map_option fst (line_entry ''Note: take with food'')
              \<notin> {Some ''type'', Some ''use'', Some ''class'', Some ''form''}"
    by code_simp
  note t = parse_llm_response_fields[of ?t "''TYPE ''" "'' a:b''" "''Note: take with food''" default_info]
  note r2 = t[THEN conjunct2]
  note r3 = r2[THEN conjunct2]
  note r4 = r3[THEN conjunct2]
  note r5 = r4[THEN conjunct2]
  note r6 = r5[THEN conjunct2]
  note r7 = r6[THEN conjunct2]
  note r8 = r7[THEN conjunct2]
  have 1: "parse_llm_response ?t ''type'' = Some ''Unknown''"
    by (rule mp[OF r3[THEN conjunct1] h])
  have 2: "parse_llm_response ?t ''use'' = Some ''Unknown''"
    by (rule mp[OF r4[THEN conjunct1] h])
  have 3: "parse_llm_response ?t ''drug_class'' = Some ''Unknown''"
    by (rule mp[OF r5[THEN conjunct1] h])
  have 4: "parse_llm_response ?t ''form'' = Some ''Unknown''"
    by (rule mp[OF r6[THEN conjunct1] h])
  have 5: "split_colon (''TYPE '' @ CHR '':'' # '' a:b'') = Some (''TYPE '', '' a:b'')"
    by (rule mp[OF r7[THEN conjunct1] hk])
  have 6: "parse_line default_info ''Note: take with food'' = default_info"
    by (rule mp[OF r8[THEN conjunct1] hl])
  from 5 have 7: "split_colon ''TYPE : a:b'' = Some (''TYPE '', '' a:b'')" by simp
  show ?thesis by (intro conjI 1 2 3 4 6 7)
qed

section \<open>The classifier call\<close>

lemma dom_error_info: "dom (error_info msg) = {''type'', ''use'', ''drug_class'', ''form''}"
  by (auto simp: error_info_def)

lemma dom_parse_llm_response:
  "dom (parse_llm_response response_text) = {''type'', ''use'', ''drug_class'', ''form''}"
  by (subst parse_llm_response_eq) auto

lemma analyze_medicine_cases:
  "analyze_medicine client c medicine_name =
     (case fst (client c (chat_messages (create_medicine_analysis_prompt medicine_name))) of
        Raised e \<Rightarrow> error_info e
      | Completion choices \<Rightarrow>
          (case response_content choices of
             Inl e \<Rightarrow> error_info e
           | Inr response_text \<Rightarrow> parse_llm_response response_text),
      snd (client c (chat_messages (create_medicine_analysis_prompt medicine_name))))"
  by (simp add: analyze_medicine_def Let_def split: prod.splits api_outcome.splits sum.splits)

text \<open>
  C6. \<open>analyze_medicine\<close> always returns a dict with the four fields. When the request
  raises, when the response has no choice, or when its first choice has no content, the
  result has type "Error", use "Failed to analyze: " followed by the message of the error,
  and "Unknown" for drug\_class and form. The service is left in the state that one request
  puts it in: a service that counts its requests has counted exactly one more.
\<close>

theorem analyze_medicine_never_raises:
  "(fst (client c (chat_messages (create_medicine_analysis_prompt medicine_name))) = Raised e
      \<longrightarrow> fst (analyze_medicine client c medicine_name)
            = [''type'' \<mapsto> ''Error'', ''use'' \<mapsto> ''Failed to analyze: '' @ e,
               ''drug_class'' \<mapsto> ''Unknown'', ''form'' \<mapsto> ''Unknown''])
   \<and> (fst (client c (chat_messages (create_medicine_analysis_prompt medicine_name))) = Completion []
      \<longrightarrow> fst (analyze_medicine client c medicine_name)
            = [''type'' \<mapsto> ''Error'', ''use'' \<mapsto> ''Failed to analyze: list index out of range'',
               ''drug_class'' \<mapsto> ''Unknown'', ''form'' \<mapsto> ''Unknown''])
   \<and> (fst (client c (chat_messages (create_medicine_analysis_prompt medicine_name)))
        = Completion (None # others)
      \<longrightarrow> (\<exists>msg. fst (analyze_medicine client c medicine_name)
            = [''type'' \<mapsto> ''Error'', ''use'' \<mapsto> ''Failed to analyze: '' @ msg,
               ''drug_class'' \<mapsto> ''Unknown'', ''form'' \<mapsto> ''Unknown'']))
   \<and> (fst (client c (chat_messages (create_medicine_analysis_prompt medicine_name)))
        = Completion (Some content # others)
      \<longrightarrow> fst (analyze_medicine client c medicine_name) = parse_llm_response (strip content))
   \<and> dom (fst (analyze_medicine client c medicine_name)) = {''type'', ''use'', ''drug_class'', ''form''}
   \<and> snd (analyze_medicine client c medicine_name)
       = snd (client c (chat_messages (create_medicine_analysis_prompt medicine_name)))
   \<and> snd (analyze_medicine (counting_client answer) n medicine_name) = Suc n"
proof -
  let ?out = "fst (client c (chat_messages (create_medicine_analysis_prompt medicine_name)))"
  have 1: "?out = Raised e \<longrightarrow> fst (analyze_medicine client c medicine_name)
            = [''type'' \<mapsto> ''Error'', ''use'' \<mapsto> ''Failed to analyze: '' @ e,
               ''drug_class'' \<mapsto> ''Unknown'', ''form'' \<mapsto> ''Unknown'']"
    by (simp add: analyze_medicine_cases error_info_def)
  have 2: "?out = Completion [] \<longrightarrow> fst (analyze_medicine client c medicine_name)
            = [''type'' \<mapsto> ''Error'', ''use'' \<mapsto> ''Failed to analyze: list index out of range'',
               ''drug_class'' \<mapsto> ''Unknown'', ''form'' \<mapsto> ''Unknown'']"
    by (simp add: analyze_medicine_cases error_info_def response_content_def)
  have 3: "?out = Completion (None # others) \<longrightarrow>
           (\<exists>msg. fst (analyze_medicine client c medicine_name)
            = [''type'' \<mapsto> ''Error'', ''use'' \<mapsto> ''Failed to analyze: '' @ msg,
               ''drug_class'' \<mapsto> ''Unknown'', ''form'' \<mapsto> ''Unknown''])"
  proof
    assume o: "?out = Completion (None # others)"
    have "fst (analyze_medicine client c medicine_name) =
            error_info (CHR 0x27 # ''NoneType' object has no attribute 'strip'' @ [CHR 0x27])"
      by (simp add: analyze_medicine_cases o response_content_def)
    then show "\<exists>msg. fst (analyze_medicine client c medicine_name)
            = [''type'' \<mapsto> ''Error'', ''use'' \<mapsto> ''Failed to analyze: '' @ msg,
               ''drug_class'' \<mapsto> ''Unknown'', ''form'' \<mapsto> ''Unknown'']"
      unfolding error_info_def
      by (rule exI[where x = "CHR 0x27 # ''NoneType' object has no attribute 'strip'' @ [CHR 0x27]"])
  qed
  have 4: "?out = Completion (Some content # others)
      \<longrightarrow> fst (analyze_medicine client c medicine_name) = parse_llm_response (strip content)"
    by (simp add: analyze_medicine_cases response_content_def)
  have 5: "dom (fst (analyze_medicine client c medicine_name)) = {''type'', ''use'', ''drug_class'', ''form''}"
    by (simp add: analyze_medicine_cases dom_error_info dom_parse_llm_response
          split: api_outcome.splits sum.splits)
  have 6: "snd (analyze_medicine client c medicine_name)
       = snd (client c (chat_messages (create_medicine_analysis_prompt medicine_name)))"
    by (simp add: analyze_medicine_cases)
  have 7: "snd (analyze_medicine (counting_client answer) n medicine_name) = Suc n"
    by (simp add: analyze_medicine_cases counting_client_def)
  show ?thesis by (intro conjI 1 2 3 4 5 6 7)
qed

theorem analyze_medicine_never_raises_witness:
  "analyze_medicine (failing ''Connection error.'') 0 ''Aspirin''
     = ([''type'' \<mapsto> ''Error'', ''use'' \<mapsto> ''Failed to analyze: Connection error.'',
         ''drug_class'' \<mapsto> ''Unknown'', ''form'' \<mapsto> ''Unknown''], 1)
   \<and> fst (analyze_medicine silent 0 ''Aspirin'')
     = [''type'' \<mapsto> ''Error'', ''use'' \<mapsto> ''Failed to analyze: list index out of range'',
        ''drug_class'' \<mapsto> ''Unknown'', ''form'' \<mapsto> ''Unknown'']
   \<and> fst (analyze_medicine contentless 0 ''Aspirin'') ''type'' = Some ''Error''
   \<and> fst (analyze_medicine (answering ''Type: Analgesic'') 0 ''Aspirin'')
     = parse_llm_response (strip ''Type: Analgesic'')"
proof -
  let ?M = "chat_messages (create_medicine_analysis_prompt ''Aspirin'')"
  have h1: "fst (failing ''Connection error.'' 0 ?M) = Raised ''Connection error.''"
    by (simp add: failing_def counting_client_def)
  have h2: "fst (silent 0 ?M) = Completion []"
    by (simp add: silent_def counting_client_def)
  have h3: "fst (contentless 0 ?M) = Completion (None # [])"
    by (simp add: contentless_def counting_client_def)
  have h4: "fst (answering ''Type: Analgesic'' 0 ?M) = Completion (Some ''Type: Analgesic'' # [])"
    by (simp add: answering_def counting_client_def)
  note t1 = analyze_medicine_never_raises[of "failing ''Connection error.''" 0 "''Aspirin''"
      "''Connection error.''" "[]" "''''" "\<lambda>n messages. Raised ''Connection error.''" 0]
  note t2 = analyze_medicine_never_raises[of silent 0 "''Aspirin''" "''''" "[]" "''''"
      "\<lambda>n messages. Completion []" 0]
  note t3 = analyze_medicine_never_raises[of contentless 0 "''Aspirin''" "''''" "[]" "''''"
      "\<lambda>n messages. Completion [None]" 0]
  note t4 = analyze_medicine_never_raises[of "answering ''Type: Analgesic''" 0 "''Aspirin''" "''''" "[]"
      "''Type: Analgesic''" "\<lambda>n messages. Completion [Some ''Type: Analgesic'']" 0]
  have a1: "fst (analyze_medicine (failing ''Connection error.'') 0 ''Aspirin'')
            = [''type'' \<mapsto> ''Error'', ''use'' \<mapsto> ''Failed to analyze: '' @ ''Connection error.'',
               ''drug_class'' \<mapsto> ''Unknown'', ''form'' \<mapsto> ''Unknown'']"
    by (rule mp[OF t1[THEN conjunct1] h1])
  have a1s: "snd (analyze_medicine (failing ''Connection error.'') 0 ''Aspirin'') = Suc 0"
    using t1[THEN conjunct2, THEN conjunct2, THEN conjunct2, THEN conjunct2, THEN conjunct2, THEN conjunct2]
    by (simp only: failing_def)
  have a2: "fst (analyze_medicine silent 0 ''Aspirin'')
     = [''type'' \<mapsto> ''Error'', ''use'' \<mapsto> ''Failed to analyze: list index out of range'',
        ''drug_class'' \<mapsto> ''Unknown'', ''form'' \<mapsto> ''Unknown'']"
    by (rule mp[OF t2[THEN conjunct2, THEN conjunct1] h2])
  have "\<exists>msg. fst (analyze_medicine contentless 0 ''Aspirin'')
            = [''type'' \<mapsto> ''Error'', ''use'' \<mapsto> ''Failed to analyze: '' @ msg,
               ''drug_class'' \<mapsto> ''Unknown'', ''form'' \<mapsto> ''Unknown'']"
    by (rule mp[OF t3[THEN conjunct2, THEN conjunct2, THEN conjunct1] h3])
  then have a3: "fst (analyze_medicine contentless 0 ''Aspirin'') ''type'' = Some ''Error''"
    by auto
  have a4: "fst (analyze_medicine (answering ''Type: Analgesic'') 0 ''Aspirin'')
     = parse_llm_response (strip ''Type: Analgesic'')"
    by (rule mp[OF t4[THEN conjunct2, THEN conjunct2, THEN conjunct2, THEN conjunct1] h4])
  have a1p: "analyze_medicine (failing ''Connection error.'') 0 ''Aspirin''
     = ([''type'' \<mapsto> ''Error'', ''use'' \<mapsto> ''Failed to analyze: Connection error.'',
         ''drug_class'' \<mapsto> ''Unknown'', ''form'' \<mapsto> ''Unknown''], 1)"
    using a1 a1s by (simp add: prod_eq_iff)
  show ?thesis by (intro conjI a1p a2 a3 a4)
qed

section \<open>The scanner: detection, scan and reset\<close>

lemma detect_loop_Cons:
  "detect_loop ratio meds (ob # rest) =
     (case accepted_name ratio meds ob of
        Some r \<Rightarrow> Some r
      | None \<Rightarrow> detect_loop ratio meds rest)"
  by (cases ob) (auto simp: accepted_name_def Let_def split: option.splits)

lemma detect_loop_find:
  "detect_loop ratio meds obs =
     (case List.find (\<lambda>ob. accepted_name ratio meds ob \<noteq> None) obs of
        None \<Rightarrow> None
      | Some ob \<Rightarrow> accepted_name ratio meds ob)"
proof (induction obs)
  case Nil
  then show ?case by simp
next
  case (Cons ob obs)
  show ?case
    by (cases "accepted_name ratio meds ob") (simp_all only: detect_loop_Cons Cons find.simps option.case if_True if_False not_None_eq option.distinct simp_thms option.inject)
qed

lemma detect_loop_skip:
  "\<forall>p \<in> set pre. accepted_name ratio meds p = None
     \<Longrightarrow> detect_loop ratio meds (pre @ rest) = detect_loop ratio meds rest"
proof (induction pre)
  case Nil
  then show ?case by simp
next
  case (Cons p pre)
  then show ?case by (simp add: detect_loop_Cons del: detect_loop.simps)
qed

lemma detect_loop_none:
  "\<forall>p \<in> set obs. accepted_name ratio meds p = None \<Longrightarrow> detect_loop ratio meds obs = None"
  using detect_loop_skip[of obs ratio meds "[]"] by simp

lemma detect_from_frame_loop:
  "detect_medicine_from_frame ratio s frame =
     detect_loop ratio (medicine_db s) (read_text_from_frame (confidence_threshold s) frame)"
  by (simp add: detect_medicine_from_frame_def Let_def)

lemma detect_clock_irrelevant:
  "detect_medicine_from_frame ratio (s\<lparr>last_scan_time := now\<rparr>) frame
     = detect_medicine_from_frame ratio s frame"
  by (simp add: detect_medicine_from_frame_def Let_def)

lemma detect_not_empty: "detect_loop ratio meds obs \<noteq> Some []"
proof (induction obs)
  case Nil
  then show ?case by simp
next
  case (Cons ob obs)
  obtain t c where ob: "ob = (t, c)" by (cases ob)
  show ?case using Cons unfolding ob
    by (auto simp: Let_def)
qed

lemma perform_scan_cases:
  "perform_scan ratio client now frame s =
     (case detect_medicine_from_frame ratio s frame of
        None \<Rightarrow> s\<lparr>last_scan_time := now\<rparr>
      | Some medicine_name \<Rightarrow>
          s\<lparr>last_scan_time := now,
            llm := snd (analyze_medicine client (llm s) medicine_name),
            last_detected_medicine := Some medicine_name,
            last_analysis := Some (fst (analyze_medicine client (llm s) medicine_name))\<rparr>)"
proof (cases "detect_medicine_from_frame ratio s frame")
  case None
  then show ?thesis by (simp add: perform_scan_def Let_def detect_clock_irrelevant)
next
  case (Some name)
  then have "name \<noteq> []" using detect_not_empty[of ratio "medicine_db s"]
    by (auto simp: detect_from_frame_loop)
  then show ?thesis using Some
    by (simp add: perform_scan_def Let_def detect_clock_irrelevant split: prod.splits)
qed

text \<open>
  C1, as amended. The observations are taken in the order of the extractor, and the first
  one that is accepted decides: an observation is accepted as the catalog match when the
  catalog gives a non-empty one, and otherwise as its trimmed text when its confidence
  exceeds 0.7 and the trimmed text is longer than 3. The observations after it have no
  part in the result, and when none is accepted the result is absent.
\<close>

theorem detect_first_accepted:
  "detect_medicine_from_frame ratio s frame
     = detect_loop ratio (medicine_db s) (read_text_from_frame (confidence_threshold s) frame)
   \<and> detect_loop ratio meds obs =
       (case List.find (\<lambda>ob. accepted_name ratio meds ob \<noteq> None) obs of
          None \<Rightarrow> None
        | Some ob \<Rightarrow> accepted_name ratio meds ob)
   \<and> ((\<forall>p \<in> set pre. accepted_name ratio meds p = None) \<and> accepted_name ratio meds ob = Some r
        \<longrightarrow> detect_loop ratio meds (pre @ ob # post) = Some r)
   \<and> ((\<forall>p \<in> set obs. accepted_name ratio meds p = None) \<longrightarrow> detect_loop ratio meds obs = None)"
proof -
  have 3: "(\<forall>p \<in> set pre. accepted_name ratio meds p = None) \<and> accepted_name ratio meds ob = Some r
        \<longrightarrow> detect_loop ratio meds (pre @ ob # post) = Some r"
  proof
    assume a: "(\<forall>p \<in> set pre. accepted_name ratio meds p = None) \<and> accepted_name ratio meds ob = Some r"
    then have "detect_loop ratio meds (pre @ ob # post) = detect_loop ratio meds (ob # post)"
      using detect_loop_skip by blast
    also have "\<dots> = Some r" using a by (simp add: detect_loop_Cons del: detect_loop.simps)
    finally show "detect_loop ratio meds (pre @ ob # post) = Some r" .
  qed
  have 4: "(\<forall>p \<in> set obs. accepted_name ratio meds p = None) \<longrightarrow> detect_loop ratio meds obs = None"
    using detect_loop_none by blast
  show ?thesis by (intro conjI detect_from_frame_loop detect_loop_find 3 4)
qed

theorem detect_first_accepted_witness:
  "detect_loop fuzz_ratio [''Aspirin'', ''Ibuprofen'']
     ([(''ab'', 95 / 100)] @ (''XYZ123'', 9 / 10) # [(''Aspirin'', 9 / 10)]) = Some ''XYZ123''
   \<and> detect_loop fuzz_ratio [''Aspirin'', ''Ibuprofen''] [(''ab'', 95 / 100)] = None"
proof -
  have a1: "accepted_name fuzz_ratio [''Aspirin'', ''Ibuprofen''] (''ab'', 95 / 100) = None"
    by code_simp
  have a2: "accepted_name fuzz_ratio [''Aspirin'', ''Ibuprofen''] (''XYZ123'', 9 / 10) = Some ''XYZ123''"
    by code_simp
  have h1: "\<forall>p \<in> set [(''ab'', 95 / 100 :: real)].
              accepted_name fuzz_ratio [''Aspirin'', ''Ibuprofen''] p = None"
    using a1 by simp
  note t = detect_first_accepted[where ratio = fuzz_ratio and meds = "[''Aspirin'', ''Ibuprofen'']"
      and pre = "[(''ab'', 95 / 100)]" and ob = "(''XYZ123'', 9 / 10)" and r = "''XYZ123''"
      and post = "[(''Aspirin'', 9 / 10)]" and obs = "[(''ab'', 95 / 100)]"
      and s = example_scanner and frame = "OcrRaised []"]
  note r3 = t[THEN conjunct2, THEN conjunct2]
  have 1: "detect_loop fuzz_ratio [''Aspirin'', ''Ibuprofen'']
     ([(''ab'', 95 / 100)] @ (''XYZ123'', 9 / 10) # [(''Aspirin'', 9 / 10)]) = Some ''XYZ123''"
    by (rule mp[OF r3[THEN conjunct1] conjI[OF h1 a2]])
  have 2: "detect_loop fuzz_ratio [''Aspirin'', ''Ibuprofen''] [(''ab'', 95 / 100)] = None"
    by (rule mp[OF r3[THEN conjunct2] h1])
  show ?thesis by (intro conjI 1 2)
qed

text \<open>
  C1 as stated fails where the catalog match is the empty name: the catalog holds the
  empty name, the first observation is blank and matches it, and the truth value test on
  the match rejects it, so that the next observation is consulted and decides.
\<close>

theorem detect_first_accepted_counterexample:
  "search_medicine fuzz_ratio ['''', ''Aspirin''] (strip '' '') 80 = Some ''''
   \<and> detect_medicine_from_frame fuzz_ratio (example_scanner\<lparr>medicine_db := ['''', ''Aspirin'']\<rparr>)
        (OcrResults [((), '' '', 9 / 10), ((), ''Aspirin'', 6 / 10)]) = Some ''Aspirin''"
  by code_simp

text \<open>
  C2, as amended. After a reset the cached result (the last detected medicine and its
  analysis) is absent, while \<open>last_scan_time\<close> and \<open>scan_interval\<close> are as before, so the
  check for an automatic scan answers as it did before the reset: true if and only if
  the interval has passed since the last scan.
\<close>

theorem reset_keeps_clock:
  "last_detected_medicine (reset s) = None
   \<and> last_analysis (reset s) = None
   \<and> last_scan_time (reset s) = last_scan_time s
   \<and> scan_interval (reset s) = scan_interval s
   \<and> should_scan now (reset s) = should_scan now s
   \<and> should_scan now (reset s) = (now - last_scan_time s \<ge> scan_interval s)
   \<and> run_step ratio client KeyR now_check now_scan frame s = Some (reset s)"
  by (simp add: reset_def should_scan_def run_step_def)

text \<open>
  C2 as stated fails: a scan at time 100 finds a medicine, the reset clears it, and at
  time 101, with an interval of 2, no automatic scan is permitted.
\<close>

theorem reset_keeps_clock_counterexample:
  "last_detected_medicine
      (perform_scan fuzz_ratio (answering ''Type: Analgesic'') 100
         (OcrResults [((), ''Aspirin'', 9 / 10)]) example_scanner) = Some ''Aspirin''
   \<and> last_detected_medicine
      (reset (perform_scan fuzz_ratio (answering ''Type: Analgesic'') 100
         (OcrResults [((), ''Aspirin'', 9 / 10)]) example_scanner)) = None
   \<and> \<not> should_scan 101
      (reset (perform_scan fuzz_ratio (answering ''Type: Analgesic'') 100
         (OcrResults [((), ''Aspirin'', 9 / 10)]) example_scanner))"
proof -
  have d: "detect_medicine_from_frame fuzz_ratio example_scanner
             (OcrResults [((), ''Aspirin'', 9 / 10)]) = Some ''Aspirin''"
    by code_simp
  have p: "perform_scan fuzz_ratio (answering ''Type: Analgesic'') 100
             (OcrResults [((), ''Aspirin'', 9 / 10)]) example_scanner
           = example_scanner
               \<lparr>last_scan_time := 100,
                 llm := snd (analyze_medicine (answering ''Type: Analgesic'') (llm example_scanner) ''Aspirin''),
                 last_detected_medicine := Some ''Aspirin'',
                 last_analysis := Some (fst (analyze_medicine (answering ''Type: Analgesic'')
                                               (llm example_scanner) ''Aspirin''))\<rparr>"
    by (simp only: perform_scan_cases d option.case)
  show ?thesis unfolding p
    by (simp add: reset_def should_scan_def example_scanner_def)
qed

text \<open>
  C7. When the extractor yields no observation for a frame, the detection returns absent
  and the scan changes nothing but \<open>last_scan_time\<close>: the classifier's service is in the
  state it was in, so no request was made.
\<close>

theorem no_observation_no_classification:
  assumes "read_text_from_frame (confidence_threshold s) frame = []"
  shows "detect_medicine_from_frame ratio s frame = None
         \<and> perform_scan ratio client now frame s = s\<lparr>last_scan_time := now\<rparr>
         \<and> llm (perform_scan ratio client now frame s) = llm s"
proof -
  have d: "detect_medicine_from_frame ratio s frame = None"
    using assms by (simp add: detect_medicine_from_frame_def)
  then show ?thesis by (simp add: perform_scan_cases)
qed

theorem no_observation_no_classification_witness:
  "read_text_from_frame (confidence_threshold example_scanner)
      (OcrResults [((), ''Aspirin'', 3 / 10)]) = []
   \<and> detect_medicine_from_frame fuzz_ratio example_scanner
      (OcrResults [((), ''Aspirin'', 3 / 10)]) = None
   \<and> llm (perform_scan fuzz_ratio (answering ''Type: Analgesic'') 100
      (OcrResults [((), ''Aspirin'', 3 / 10)]) example_scanner) = 0"
proof -
  have h: "read_text_from_frame (confidence_threshold example_scanner)
      (OcrResults [((), ''Aspirin'', 3 / 10)]) = []"
    by (simp add: read_text_from_frame_def example_scanner_def)
  note t = no_observation_no_classification[OF h, of fuzz_ratio "answering ''Type: Analgesic''" 100]
  have l: "llm example_scanner = 0" by (simp add: example_scanner_def)
  show ?thesis using h t[THEN conjunct1] t[THEN conjunct2, THEN conjunct2] l by simp
qed

text \<open>
  C8. Every scan sets \<open>last_scan_time\<close> to the time of its start and keeps the interval,
  so that after it an automatic scan is due exactly when the full interval has passed
  since that start; a scan that detects no medicine leaves the last detected medicine and
  its analysis as they were.
\<close>

theorem failed_scan_keeps_cache:
  "last_scan_time (perform_scan ratio client now frame s) = now
   \<and> scan_interval (perform_scan ratio client now frame s) = scan_interval s
   \<and> should_scan t (perform_scan ratio client now frame s) = (t - now \<ge> scan_interval s)
   \<and> (detect_medicine_from_frame ratio s frame = None \<longrightarrow>
        last_detected_medicine (perform_scan ratio client now frame s) = last_detected_medicine s
        \<and> last_analysis (perform_scan ratio client now frame s) = last_analysis s
        \<and> llm (perform_scan ratio client now frame s) = llm s)"
  by (simp add: perform_scan_cases should_scan_def split: option.splits)

theorem failed_scan_keeps_cache_witness:
  "detect_medicine_from_frame fuzz_ratio
      (example_scanner\<lparr>last_detected_medicine := Some ''Aspirin'', last_analysis := Some default_info\<rparr>)
      (OcrResults [((), ''ab'', 95 / 100)]) = None
   \<and> last_detected_medicine (perform_scan fuzz_ratio (answering ''Type: Analgesic'') 100
      (OcrResults [((), ''ab'', 95 / 100)])
      (example_scanner\<lparr>last_detected_medicine := Some ''Aspirin'', last_analysis := Some default_info\<rparr>))
     = Some ''Aspirin''
   \<and> last_analysis (perform_scan fuzz_ratio (answering ''Type: Analgesic'') 100
      (OcrResults [((), ''ab'', 95 / 100)])
      (example_scanner\<lparr>last_detected_medicine := Some ''Aspirin'', last_analysis := Some default_info\<rparr>))
     = Some default_info
   \<and> \<not> should_scan 101 (perform_scan fuzz_ratio (answering ''Type: Analgesic'') 100
      (OcrResults [((), ''ab'', 95 / 100)])
      (example_scanner\<lparr>last_detected_medicine := Some ''Aspirin'', last_analysis := Some default_info\<rparr>))"
proof -
  let ?s = "example_scanner\<lparr>last_detected_medicine := Some ''Aspirin'', last_analysis := Some default_info\<rparr>"
  let ?f = "OcrResults [((), ''ab'', 95 / 100 :: real)]"
  have o: "read_text_from_frame (confidence_threshold ?s) ?f = [(''ab'', 95 / 100)]"
    by (simp add: read_text_from_frame_def example_scanner_def)
  have m: "medicine_db ?s = [''Aspirin'', ''Ibuprofen'']"
    by (simp add: example_scanner_def)
  have l: "detect_loop fuzz_ratio [''Aspirin'', ''Ibuprofen''] [(''ab'', 95 / 100)] = None"
    by code_simp
  have h: "detect_medicine_from_frame fuzz_ratio ?s ?f = None"
    by (simp only: detect_from_frame_loop o m l)
  note t = failed_scan_keeps_cache[of fuzz_ratio "answering ''Type: Analgesic''" 100 ?f ?s 101]
  note r4 = mp[OF t[THEN conjunct2, THEN conjunct2, THEN conjunct2] h]
  have 1: "last_detected_medicine (perform_scan fuzz_ratio (answering ''Type: Analgesic'') 100 ?f ?s)
             = Some ''Aspirin''"
    using r4[THEN conjunct1] by simp
  have 2: "last_analysis (perform_scan fuzz_ratio (answering ''Type: Analgesic'') 100 ?f ?s)
             = Some default_info"
    using r4[THEN conjunct2, THEN conjunct1] by simp
  have 3: "\<not> should_scan 101 (perform_scan fuzz_ratio (answering ''Type: Analgesic'') 100 ?f ?s)"
    using t[THEN conjunct2, THEN conjunct2, THEN conjunct1] by (simp add: example_scanner_def)
  show ?thesis by (intro conjI h 1 2 3)
qed

end
